theory Spec2Isabelle
  imports Complex_Main
begin

section \<open>Numbers\<close>

text \<open>
  The scripts compute with Python floats. The embedding uses the reals: every arithmetic
  operation is exact, so rounding error, overflow and the non-finite values of binary
  floating point are outside the model. The one non-finite value the code tests for
  itself (a NaN average true range) is the value \<open>None\<close> of an option type.

  \<open>py_int\<close> is Python's \<open>int(x)\<close> on a float: truncation toward zero.
  \<open>py_round\<close> is Python's one-argument \<open>round(x)\<close>: the nearest integer, a tie going
  to the even neighbour. \<open>round2\<close> is \<open>round(x, 2)\<close>.
\<close>

definition py_int :: "real \<Rightarrow> int" where
  "py_int x = (if 0 \<le> x then \<lfloor>x\<rfloor> else \<lceil>x\<rceil>)"

definition py_round :: "real \<Rightarrow> int" where
  "py_round x =
     (let f = \<lfloor>x\<rfloor>; d = x - of_int f
      in if d < 1/2 then f else if 1/2 < d then f + 1 else if even f then f else f + 1)"

definition round2 :: "real \<Rightarrow> real" where
  "round2 x = of_int (py_round (x * 100)) / 100"

datatype py_error = ArithmeticError

section \<open>Price quantization (\<open>format_price\<close>)\<close>

text \<open>
  \<open>global_min_tick\<close> is a module global that may be \<open>None\<close>; it is passed explicitly.
  \<open>effective_tick\<close> is the local \<open>effective_tick_size\<close> of \<open>format_price\<close> as it stands
  when the quotient is taken: the fallback 0.01, replaced by the global when that is a
  positive number, and reset to 0.01 by the final safety check.
\<close>

definition effective_tick :: "real option \<Rightarrow> real" where
  "effective_tick global_min_tick =
     (let effective_tick_size =
            (case global_min_tick of
               None \<Rightarrow> 0.01
             | Some t \<Rightarrow> if 0 < t then t else 0.01)
      in if effective_tick_size \<le> 0 then 0.01 else effective_tick_size)"

definition format_price :: "real option \<Rightarrow> real \<Rightarrow> real" where
  "format_price global_min_tick price =
     of_int (py_round (price / effective_tick global_min_tick))
       * effective_tick global_min_tick"

section \<open>Bars, volatility and the signal\<close>

datatype action = BUY | SELL

record bar =
  bar_open :: real
  bar_high :: real
  bar_low :: real
  bar_close :: real

text \<open>
  \<open>calculate_atr\<close>: the true range of a row is the largest of high - low,
  |high - previous close| and |low - previous close|; the first row has no previous
  close, and the row-wise maximum skips the two missing values. The result is the mean
  of the last \<open>period\<close> true ranges, and NaN (\<open>None\<close>) when there are fewer rows.
\<close>

fun true_ranges :: "real option \<Rightarrow> bar list \<Rightarrow> real list" where
  "true_ranges prev [] = []"
| "true_ranges prev (b # bs) =
     (case prev of
        None \<Rightarrow> bar_high b - bar_low b
      | Some pc \<Rightarrow> max (bar_high b - bar_low b)
                    (max \<bar>bar_high b - pc\<bar> \<bar>bar_low b - pc\<bar>))
     # true_ranges (Some (bar_close b)) bs"

definition calculate_atr :: "bar list \<Rightarrow> nat \<Rightarrow> real option" where
  "calculate_atr df period =
     (let tr = true_ranges None df
      in if length tr < period \<or> period = 0 then None
         else Some (sum_list (drop (length tr - period) tr) / real period))"

datatype signal = Signal action real | NoSignal

text \<open>
  Signal generation of the main script. The percentage change divides by the bar's
  open; at \<open>open = 0\<close> the quotient is not a real number and the model returns the error
  value. No statement below is made about such a bar.
\<close>

definition generate_signal :: "real option \<Rightarrow> real \<Rightarrow> bar \<Rightarrow> py_error + signal" where
  "generate_signal global_min_tick ATR latest_bar =
     (let R = ATR * 0.1
      in if bar_open latest_bar = 0 then Inl ArithmeticError
         else
           let price_change_percent =
                 (bar_close latest_bar - bar_open latest_bar) / bar_open latest_bar * 100
           in if price_change_percent > 0
              then Inr (Signal BUY (format_price global_min_tick (bar_close latest_bar - R)))
              else if price_change_percent < 0
              then Inr (Signal SELL (format_price global_min_tick (bar_close latest_bar + R)))
              else Inr NoSignal)"

section \<open>Position sizing\<close>

text \<open>
  The sizing block of the main script, with the module constants \<open>ACCOUNT_SIZE\<close>,
  \<open>LEVERAGE\<close> and \<open>RISK_PCT\<close> as parameters. \<open>qty_min\<close> is \<open>qty\<close> before the final
  leverage check, \<open>qty_final\<close> the value passed to \<open>place_trade\<close>.
\<close>

record sizing =
  qty_risk :: int
  qty_leverage :: int
  qty_min :: int
  leverage_check_fired :: bool
  qty_final :: int

definition position_size :: "real \<Rightarrow> real \<Rightarrow> real \<Rightarrow> real \<Rightarrow> real \<Rightarrow> sizing" where
  "position_size ACCOUNT_SIZE LEVERAGE RISK_PCT R close_price =
     (let risk_amount = ACCOUNT_SIZE * RISK_PCT;
          qr = max 1 (py_int (risk_amount / R));
          max_position = ACCOUNT_SIZE * LEVERAGE;
          ql = max 1 (py_int (max_position / close_price));
          qty = min qr ql;
          actual_position_size = of_int qty * close_price;
          actual_leverage = actual_position_size / ACCOUNT_SIZE
      in if actual_leverage > LEVERAGE
         then \<lparr>qty_risk = qr, qty_leverage = ql, qty_min = qty,
               leverage_check_fired = True,
               qty_final = py_int (max_position / close_price)\<rparr>
         else \<lparr>qty_risk = qr, qty_leverage = ql, qty_min = qty,
               leverage_check_fired = False, qty_final = qty\<rparr>)"

definition ACCOUNT_SIZE :: real where "ACCOUNT_SIZE = 25000"
definition LEVERAGE :: real where "LEVERAGE = 4"
definition RISK_PCT :: real where "RISK_PCT = 0.01"

section \<open>The cycle up to the entry order\<close>

text \<open>
  The main script from the retrieval of the five-minute bars to the call of
  \<open>place_trade\<close>. \<open>exit(n)\<close> ends the process with code \<open>n\<close> (the surrounding handler
  catches \<open>Exception\<close> only, which \<open>SystemExit\<close> is not); no order has been submitted
  at any of these exits. \<open>PlaceTrade\<close> is the call \<open>place_trade(action, qty, stop)\<close>,
  the first point at which an order reaches the broker.
\<close>

datatype cycle_outcome =
    Exited int
  | PlaceTrade action int real
  | Raised py_error

definition run_cycle ::
  "real option \<Rightarrow> bar list \<Rightarrow> real \<Rightarrow> bar list \<Rightarrow> cycle_outcome" where
  "run_cycle global_min_tick df time_diff daily_df =
     (if length df < 1 then Exited 1
      else
        let latest_bar = last df
        in if time_diff > 300 then Exited 1
           else if length daily_df < 14 then Exited 1
           else
             (case calculate_atr daily_df 14 of
                None \<Rightarrow> Exited 1
              | Some ATR \<Rightarrow>
                  if ATR \<le> 0 then Exited 1
                  else
                    (case generate_signal global_min_tick ATR latest_bar of
                       Inl e \<Rightarrow> Raised e
                     | Inr NoSignal \<Rightarrow> Exited 0
                     | Inr (Signal act stop_price_reference) \<Rightarrow>
                         if bar_close latest_bar = 0 then Raised ArithmeticError
                         else
                           PlaceTrade act
                             (qty_final (position_size ACCOUNT_SIZE LEVERAGE RISK_PCT
                                           (ATR * 0.1) (bar_close latest_bar)))
                             stop_price_reference)))"

section \<open>The protective stop order (\<open>place_stoploss_order\<close>)\<close>

text \<open>
  The broker is an external collaborator. What the function sends to it is recorded as
  a list of events; what it reads from it is an environment: the status of the first
  stop order at attempt \<open>i\<close>, the status of the order resubmitted at attempt \<open>i\<close>, and
  the outcome of the final confirmation by re-listing the open orders. The trade object
  returned by the broker always carries its order and its order status (the two
  \<open>hasattr\<close> tests succeed), and broker calls do not raise.
\<close>

datatype broker_event =
    CancelAllOrders
  | PlaceStop action int real
  | CancelOrder

record stop_env =
  sl_status :: "nat \<Rightarrow> string"
  retry_status :: "nat \<Rightarrow> string"
  relisting_confirms :: bool

definition stop_action :: "action \<Rightarrow> action" where
  "stop_action entry_action = (if entry_action = BUY then SELL else BUY)"

definition protective_stop_price :: "action \<Rightarrow> real \<Rightarrow> real \<Rightarrow> real" where
  "protective_stop_price entry_action stop_price fill_price =
     (if stop_action entry_action = BUY
      then max stop_price (fill_price * 1.001)
      else min stop_price (fill_price * 0.999))"

definition retry_price :: "real option \<Rightarrow> action \<Rightarrow> real \<Rightarrow> real" where
  "retry_price global_min_tick sl_action formatted_stop_price =
     (let adjustment = 0.01
      in format_price global_min_tick
           (formatted_stop_price + (if sl_action = BUY then adjustment else - adjustment)))"

text \<open>
  The status loop \<open>for i in range(10)\<close>, as a recursion over the remaining values of
  \<open>i\<close>. \<open>Some True\<close> is the \<open>return True\<close> inside the loop, \<open>None\<close> the fall-through to
  the confirmation step after it.
\<close>

fun stop_status_loop ::
  "stop_env \<Rightarrow> real option \<Rightarrow> action \<Rightarrow> int \<Rightarrow> real \<Rightarrow> nat list
     \<Rightarrow> bool option \<times> broker_event list" where
  "stop_status_loop env tick sl_action quantity formatted_stop_price [] = (None, [])"
| "stop_status_loop env tick sl_action quantity formatted_stop_price (i # rest) =
     (let status = sl_status env i
      in if status \<in> {''Submitted'', ''PreSubmitted'', ''Filled''} then (Some True, [])
         else if status = ''PendingSubmit'' \<and> i \<ge> 8
         then
           let new_price = retry_price tick sl_action formatted_stop_price;
               new_status = retry_status env i;
               sent = [CancelOrder, PlaceStop sl_action quantity new_price]
           in if new_status \<in> {''Submitted'', ''PreSubmitted''} then (Some True, sent)
              else
                (case stop_status_loop env tick sl_action quantity formatted_stop_price rest of
                   (r, later) \<Rightarrow> (r, sent @ later))
         else stop_status_loop env tick sl_action quantity formatted_stop_price rest)"

definition place_stoploss_order ::
  "stop_env \<Rightarrow> real option \<Rightarrow> action \<Rightarrow> int \<Rightarrow> real \<Rightarrow> real
     \<Rightarrow> bool \<times> broker_event list" where
  "place_stoploss_order env tick entry_action quantity stop_price fill_price =
     (let sl_action = stop_action entry_action;
          formatted_stop_price =
            format_price tick (protective_stop_price entry_action stop_price fill_price);
          placed = [CancelAllOrders, PlaceStop sl_action quantity formatted_stop_price]
      in case stop_status_loop env tick sl_action quantity formatted_stop_price [0..<10] of
           (Some r, sent) \<Rightarrow> (r, placed @ sent)
         | (None, sent) \<Rightarrow> (relisting_confirms env, placed @ sent))"

section \<open>Trade records\<close>

text \<open>
  \<open>trades_record\<close> is a list of dictionaries. A record has one field per key; the key
  each update loop tests for (\<open>'EntryPrice' in trade\<close>) is optional. A holding time is
  kept as hours, minutes and seconds (the numbers the duration text is formatted from),
  a time stamp as seconds since the start of monitoring; \<open>None\<close> is the empty string
  those keys hold at entry.
\<close>

record trade =
  Direction :: action
  EntryPrice :: "real option"
  Quantity :: int
  StopLoss :: real
  PnL :: real
  PnLPercent :: real
  Duration :: "(int \<times> int \<times> int) option"
  Result :: string
  ExitTime :: "real option"
  ExitReason :: string
  ExitPrice :: real

definition new_trade :: "action \<Rightarrow> real \<Rightarrow> int \<Rightarrow> real \<Rightarrow> trade" where
  "new_trade act fill_price qty stop_price =
     \<lparr>Direction = act, EntryPrice = Some fill_price, Quantity = qty, StopLoss = stop_price,
      PnL = 0, PnLPercent = 0, Duration = None, Result = '''', ExitTime = None,
      ExitReason = '''', ExitPrice = 0\<rparr>"

definition duration_hms :: "real \<Rightarrow> int \<times> int \<times> int" where
  "duration_hms duration_seconds =
     (let hours = of_int \<lfloor>duration_seconds / 3600\<rfloor>;
          remainder = duration_seconds - 3600 * hours;
          minutes = of_int \<lfloor>remainder / 60\<rfloor>;
          seconds = remainder - 60 * minutes
      in (py_int hours, py_int minutes, py_int seconds))"

definition profit_loss :: "action \<Rightarrow> real \<Rightarrow> real \<Rightarrow> int \<Rightarrow> real" where
  "profit_loss act entry_price exit_price quantity =
     (if act = BUY then (exit_price - entry_price) * of_int quantity
      else (entry_price - exit_price) * of_int quantity)"

definition profit_percent :: "action \<Rightarrow> real \<Rightarrow> real \<Rightarrow> real" where
  "profit_percent act entry_price exit_price =
     (if act = BUY then ((exit_price - entry_price) / entry_price) * 100
      else ((entry_price - exit_price) / entry_price) * 100)"

definition result_of :: "real \<Rightarrow> string" where
  "result_of pl = (if pl > 0 then ''Profit'' else if pl < 0 then ''Loss'' else ''Breakeven'')"

definition entry_matches :: "real \<Rightarrow> trade \<Rightarrow> bool" where
  "entry_matches entry_price t =
     (case EntryPrice t of None \<Rightarrow> False | Some e \<Rightarrow> \<bar>e - entry_price\<bar> < 0.1)"

definition close_trade ::
  "real \<Rightarrow> real \<Rightarrow> real \<Rightarrow> real \<Rightarrow> string \<Rightarrow> trade \<Rightarrow> trade" where
  "close_trade exit_price pl pct end_seconds reason t =
     t\<lparr>ExitPrice := exit_price, PnL := round2 pl, PnLPercent := round2 pct,
       Duration := Some (duration_hms end_seconds), Result := result_of pl,
       ExitTime := Some end_seconds, ExitReason := reason\<rparr>"

text \<open>The update loop over \<open>trades_record\<close>: the first matching record, then \<open>break\<close>.\<close>

fun update_first :: "(trade \<Rightarrow> bool) \<Rightarrow> (trade \<Rightarrow> trade) \<Rightarrow> trade list \<Rightarrow> trade list" where
  "update_first P f [] = []"
| "update_first P f (t # ts) = (if P t then f t # ts else t # update_first P f ts)"

section \<open>Closing at market (\<open>close_position_at_market\<close>)\<close>

text \<open>
  \<open>polls\<close> are the status and average fill price the close order shows at its
  successive polls; the loop \<open>for attempt in range(40)\<close> reads at most forty of them and
  stops at the first \<open>Filled\<close>. A fill price of zero fails the test
  \<open>filled and exit_price\<close>. With an entry price of zero the percentage raises, and the
  function's handler returns \<open>False\<close> before any record is written.
\<close>

fun wait_for_fill :: "(string \<times> real) list \<Rightarrow> real option" where
  "wait_for_fill [] = None"
| "wait_for_fill ((status, avgFillPrice) # rest) =
     (if status = ''Filled'' then Some avgFillPrice else wait_for_fill rest)"

definition close_position_at_market ::
  "action \<Rightarrow> int \<Rightarrow> real \<Rightarrow> string \<Rightarrow> (string \<times> real) list \<Rightarrow> real \<Rightarrow> trade list
     \<Rightarrow> bool \<times> trade list" where
  "close_position_at_market act quantity entry_price determined_exit_reason polls
       end_seconds trades_record =
     (case wait_for_fill (take 40 polls) of
        None \<Rightarrow> (False, trades_record)
      | Some exit_price \<Rightarrow>
          if exit_price = 0 then (False, trades_record)
          else if entry_price = 0 then (False, trades_record)
          else
            (True,
             update_first (entry_matches entry_price)
               (close_trade exit_price
                  (profit_loss act entry_price exit_price quantity)
                  (profit_percent act entry_price exit_price)
                  end_seconds determined_exit_reason)
               trades_record))"

section \<open>The position monitor (\<open>monitor_trade_and_exit\<close>)\<close>

text \<open>
  One \<open>wake\<close> is everything one pass of the monitoring loop reads from outside: the
  US/Eastern wall clock (hour and minute), the seconds elapsed since the start of
  monitoring, the symbols of the broker's position list, the market price of the
  sixty-second refresh, the polls of a close order placed in this pass, and the seconds
  elapsed when the exit is time-stamped.
\<close>

record wake =
  w_hour :: nat
  w_minute :: nat
  w_elapsed :: real
  w_positions :: "string list"
  w_market_price :: "real option"
  w_close_polls :: "(string \<times> real) list"
  w_end_elapsed :: real

definition EOD_HOUR :: nat where "EOD_HOUR = 15"
definition EOD_MINUTE_START :: nat where "EOD_MINUTE_START = 50"

definition digit_char :: "nat \<Rightarrow> char" where
  "digit_char d =
     (if d = 0 then CHR ''0'' else if d = 1 then CHR ''1'' else if d = 2 then CHR ''2''
      else if d = 3 then CHR ''3'' else if d = 4 then CHR ''4'' else if d = 5 then CHR ''5''
      else if d = 6 then CHR ''6'' else if d = 7 then CHR ''7'' else if d = 8 then CHR ''8''
      else CHR ''9'')"

fun str_nat :: "nat \<Rightarrow> string" where
  "str_nat n = (if n < 10 then [digit_char n] else str_nat (n div 10) @ [digit_char (n mod 10)])"

definition str_int :: "int \<Rightarrow> string" where
  "str_int i = (if i < 0 then CHR ''-'' # str_nat (nat (- i)) else str_nat (nat i))"

definition policy_exit :: "string \<Rightarrow> int \<Rightarrow> wake \<Rightarrow> string option" where
  "policy_exit config_exit_strategy config_max_hold_duration_minutes w =
     (if config_exit_strategy = ''EOD''
      then (if w_hour w = EOD_HOUR \<and> w_minute w \<ge> EOD_MINUTE_START
            then Some ''EOD Market Close'' else None)
      else if config_exit_strategy = ''MAX_DURATION''
      then (if w_elapsed w / 60 \<ge> of_int config_max_hold_duration_minutes
            then Some (''Max Duration ('' @ str_int config_max_hold_duration_minutes
                         @ '' min) Reached'')
            else None)
      else None)"

datatype transition =
    PolicyClose string bool
  | StopTriggered
  | MonitorRaised py_error

datatype monitor_step_result =
    Continue real
  | Finished transition "trade list"

text \<open>
  One pass of the loop. \<open>Continue t\<close> carries the new \<open>last_update_time\<close> into the next
  pass; \<open>Finished\<close> is the \<open>break\<close> (or the exception handler of the function), with the
  trade records as they are left.
\<close>

definition monitor_step ::
  "string \<Rightarrow> action \<Rightarrow> int \<Rightarrow> real \<Rightarrow> real \<Rightarrow> string \<Rightarrow> int \<Rightarrow> real \<Rightarrow> trade list \<Rightarrow> wake
     \<Rightarrow> monitor_step_result" where
  "monitor_step contract_symbol act quantity entry_price stop_price config_exit_strategy
       config_max_hold_duration_minutes last_update_time trades_record w =
     (case policy_exit config_exit_strategy config_max_hold_duration_minutes w of
        Some exit_reason_for_strategy \<Rightarrow>
          (case close_position_at_market act quantity entry_price exit_reason_for_strategy
                  (w_close_polls w) (w_end_elapsed w) trades_record of
             (ok, trs) \<Rightarrow> Finished (PolicyClose exit_reason_for_strategy ok) trs)
      | None \<Rightarrow>
          if contract_symbol \<notin> set (w_positions w)
          then
            (let exit_price = stop_price
             in if entry_price = 0 then Finished (MonitorRaised ArithmeticError) trades_record
                else
                  Finished StopTriggered
                    (update_first (entry_matches entry_price)
                       (close_trade exit_price
                          (profit_loss act entry_price exit_price quantity)
                          (profit_percent act entry_price exit_price)
                          (w_end_elapsed w) ''Stop Loss Triggered'')
                       trades_record))
          else if w_elapsed w - last_update_time \<ge> 60
          then
            (case w_market_price w of
               None \<Rightarrow> Continue (w_elapsed w)
             | Some current_market_price \<Rightarrow>
                 if current_market_price \<noteq> 0 \<and> current_market_price > 0 \<and> entry_price = 0
                 then Finished (MonitorRaised ArithmeticError) trades_record
                 else Continue (w_elapsed w))
          else Continue last_update_time)"

text \<open>
  The loop runs for as long as the broker keeps reporting the position and no policy
  fires. Over a finite sequence of wakes the result is \<open>None\<close> when the sequence ends
  with the loop still running.
\<close>

fun monitor_loop ::
  "string \<Rightarrow> action \<Rightarrow> int \<Rightarrow> real \<Rightarrow> real \<Rightarrow> string \<Rightarrow> int \<Rightarrow> real \<Rightarrow> trade list \<Rightarrow> wake list
     \<Rightarrow> (transition \<times> trade list) option" where
  "monitor_loop contract_symbol act quantity entry_price stop_price config_exit_strategy
       config_max_hold_duration_minutes last_update_time trades_record [] = None"
| "monitor_loop contract_symbol act quantity entry_price stop_price config_exit_strategy
       config_max_hold_duration_minutes last_update_time trades_record (w # ws) =
     (case monitor_step contract_symbol act quantity entry_price stop_price
             config_exit_strategy config_max_hold_duration_minutes last_update_time
             trades_record w of
        Finished tr trs \<Rightarrow> Some (tr, trs)
      | Continue t \<Rightarrow>
          monitor_loop contract_symbol act quantity entry_price stop_price
            config_exit_strategy config_max_hold_duration_minutes t trades_record ws)"

definition monitor_trade_and_exit ::
  "string \<Rightarrow> action \<Rightarrow> int \<Rightarrow> real \<Rightarrow> real \<Rightarrow> string \<Rightarrow> int \<Rightarrow> trade list \<Rightarrow> wake list
     \<Rightarrow> (transition \<times> trade list) option" where
  "monitor_trade_and_exit contract_symbol act quantity entry_price stop_price
       config_exit_strategy config_max_hold_duration_minutes trades_record wakes =
     monitor_loop contract_symbol act quantity entry_price stop_price config_exit_strategy
       config_max_hold_duration_minutes 0 trades_record wakes"

section \<open>Example environments\<close>


definition stuck_then_accepted_env :: stop_env where
  "stuck_then_accepted_env = \<lparr>sl_status = (\<lambda>i. ''PendingSubmit''),
      retry_status = (\<lambda>i. ''Submitted''), relisting_confirms = False\<rparr>"

definition wake_at :: "nat \<Rightarrow> nat \<Rightarrow> string list \<Rightarrow> (string \<times> real) list \<Rightarrow> wake" where
  "wake_at h m positions polls =
     \<lparr>w_hour = h, w_minute = m, w_elapsed = 5, w_positions = positions,
      w_market_price = None, w_close_polls = polls, w_end_elapsed = 7\<rparr>"

section \<open>Rounding and quantization\<close>

lemma py_round_error: "\<bar>of_int (py_round x) - x\<bar> \<le> 1/2"
  unfolding py_round_def Let_def by (auto; linarith)

lemma py_round_of_int: "py_round (of_int k) = k"
  by (simp add: py_round_def)

lemma py_round_mono: "x \<le> y \<Longrightarrow> py_round x \<le> py_round y"
proof -
  assume xy: "x \<le> y"
  have fl: "\<lfloor>x\<rfloor> \<le> \<lfloor>y\<rfloor>" using xy by (rule floor_mono)
  show ?thesis
  proof (cases "\<lfloor>x\<rfloor> = \<lfloor>y\<rfloor>")
    case True
    then show ?thesis using xy unfolding py_round_def Let_def by auto
  next
    case False
    then have "\<lfloor>x\<rfloor> + 1 \<le> \<lfloor>y\<rfloor>" using fl by linarith
    moreover have "py_round x \<le> \<lfloor>x\<rfloor> + 1" unfolding py_round_def Let_def by auto
    moreover have "\<lfloor>y\<rfloor> \<le> py_round y" unfolding py_round_def Let_def by auto
    ultimately show ?thesis by linarith
  qed
qed

lemma py_round_nearest: "\<bar>of_int (py_round x) - x\<bar> \<le> \<bar>of_int k - x\<bar>"
proof (cases "k = py_round x")
  case True then show ?thesis by simp
next
  case False
  then have "1 \<le> \<bar>k - py_round x\<bar>" by linarith
  then have "(1::real) \<le> of_int \<bar>k - py_round x\<bar>" by (simp only: of_int_1_le_iff)
  then have "(1::real) \<le> \<bar>of_int k - of_int (py_round x)\<bar>" by simp
  then show ?thesis using py_round_error [of x] by linarith
qed

lemma effective_tick_pos: "0 < effective_tick g"
  by (simp add: effective_tick_def Let_def split: option.splits)

lemma format_price_error: "\<bar>format_price g p - p\<bar> \<le> effective_tick g / 2"
proof -
  define e where "e = effective_tick g"
  define a :: real where "a = of_int (py_round (p / e))"
  have e: "0 < e" unfolding e_def by (rule effective_tick_pos)
  have "\<bar>a - p / e\<bar> \<le> 1/2" unfolding a_def by (rule py_round_error)
  then have "\<bar>a - p / e\<bar> * e \<le> 1/2 * e" using e by (intro mult_right_mono) auto
  moreover have "\<bar>a - p / e\<bar> * e = \<bar>(a - p / e) * e\<bar>" using e by (simp add: abs_mult)
  moreover have "(a - p / e) * e = a * e - p" using e by (simp add: field_simps)
  ultimately have "\<bar>a * e - p\<bar> \<le> e / 2" by simp
  then show ?thesis by (simp add: format_price_def a_def e_def)
qed

lemma format_price_mono: "p \<le> q \<Longrightarrow> format_price g p \<le> format_price g q"
  unfolding format_price_def
  using effective_tick_pos [of g]
  by (intro mult_right_mono) (auto intro!: py_round_mono divide_right_mono)

lemma format_price_nearest:
  "\<bar>format_price g p - p\<bar> \<le> \<bar>of_int k * effective_tick g - p\<bar>"
proof -
  define e where "e = effective_tick g"
  define a :: real where "a = of_int (py_round (p / e))"
  have e: "0 < e" unfolding e_def by (rule effective_tick_pos)
  have "\<bar>a - p / e\<bar> \<le> \<bar>of_int k - p / e\<bar>" unfolding a_def by (rule py_round_nearest)
  then have "\<bar>a - p / e\<bar> * e \<le> \<bar>of_int k - p / e\<bar> * e"
    using e by (intro mult_right_mono) auto
  moreover have "\<bar>a - p / e\<bar> * e = \<bar>(a - p / e) * e\<bar>" using e by (simp add: abs_mult)
  moreover have "(a - p / e) * e = a * e - p" using e by (simp add: field_simps)
  moreover have "\<bar>of_int k - p / e\<bar> * e = \<bar>(of_int k - p / e) * e\<bar>"
    using e by (simp add: abs_mult)
  moreover have "(of_int k - p / e) * e = of_int k * e - p" using e by (simp add: field_simps)
  ultimately have "\<bar>a * e - p\<bar> \<le> \<bar>of_int k * e - p\<bar>" by simp
  then show ?thesis by (simp add: format_price_def a_def e_def)
qed

lemma effective_tick_default:
  "g = None \<or> (\<exists>t. g = Some t \<and> t \<le> 0) \<Longrightarrow> effective_tick g = 0.01"
  by (auto simp: effective_tick_def)

lemma effective_tick_given: "0 < t \<Longrightarrow> effective_tick (Some t) = t"
  by (simp add: effective_tick_def)

text \<open>
  Claim C10. \<open>format_price\<close> is total and never divides by a tick that is not positive:
  the effective tick is always strictly positive; it is the default 0.01 when the global
  tick is \<open>None\<close>, zero or negative, and the global tick otherwise; the result is
  \<open>round(price / tick) * tick\<close> for that effective tick, lies within half a tick of the
  price, and no integer multiple of the effective tick is nearer to the price.
\<close>

theorem format_price_total_positive_tick:
  "0 < effective_tick g
   \<and> (g = None \<or> (\<exists>t. g = Some t \<and> t \<le> 0) \<longrightarrow> effective_tick g = 0.01)
   \<and> (\<forall>t. g = Some t \<and> 0 < t \<longrightarrow> effective_tick g = t)
   \<and> format_price g price
       = of_int (py_round (price / effective_tick g)) * effective_tick g
   \<and> \<bar>format_price g price - price\<bar> \<le> effective_tick g / 2
   \<and> (\<forall>k::int. \<bar>format_price g price - price\<bar> \<le> \<bar>of_int k * effective_tick g - price\<bar>)"
  using effective_tick_pos [of g] effective_tick_default [of g] format_price_error [of g price]
    format_price_nearest [of g price] effective_tick_given
  by (auto simp: format_price_def)

theorem format_price_total_positive_tick_witness:
  "effective_tick None = 0.01 \<and> effective_tick (Some 0) = 0.01
   \<and> effective_tick (Some (- 5)) = 0.01 \<and> effective_tick (Some 0.25) = 0.25
   \<and> format_price (Some (- 5)) 1.234 = 1.23"
proof -
  have a: "effective_tick None = 0.01"
    using format_price_total_positive_tick [of None 0] by blast
  have b: "effective_tick (Some 0) = 0.01"
    using format_price_total_positive_tick [of "Some 0" 0] by blast
  have neg: "(- 5 :: real) \<le> 0" and pos: "(0::real) < 0.25" by simp_all
  have c: "effective_tick (Some (- 5)) = 0.01"
    using format_price_total_positive_tick [of "Some (- 5)" 0] neg by blast
  have d: "effective_tick (Some 0.25) = 0.25"
    using format_price_total_positive_tick [of "Some 0.25" 0] pos by blast
  have e: "format_price (Some (- 5)) 1.234 = 1.23"
    using format_price_total_positive_tick [of "Some (- 5)" "1.234"] c
    by (simp add: py_round_def Let_def)
  from a b c d e show ?thesis by blast
qed

lemma pct_sign:
  assumes "0 < (opn::real)"
  shows "((c - opn) / opn * 100 > 0) = (opn < c)" "((c - opn) / opn * 100 < 0) = (c < opn)"
  using assms by (simp_all add: zero_less_mult_iff mult_less_0_iff zero_less_divide_iff divide_less_0_iff)

lemma generate_signal_positive_open:
  assumes "0 < bar_open b"
  shows "generate_signal g ATR b =
     Inr (if bar_open b < bar_close b
          then Signal BUY (format_price g (bar_close b - ATR * 0.1))
          else if bar_close b < bar_open b
          then Signal SELL (format_price g (bar_close b + ATR * 0.1))
          else NoSignal)"
  unfolding generate_signal_def Let_def
  using assms pct_sign [of "bar_open b" "bar_close b"] by auto

text \<open>
  Claim C5. For a bar with positive open and an ATR above zero, signal generation
  returns a signal: none exactly when close equals open, BUY exactly when close is above
  open, SELL exactly when close is below open. The stop of a BUY is the quantized
  \<open>close - ATR * 0.1\<close>, the stop of a SELL the quantized \<open>close + ATR * 0.1\<close>, and each
  is within one tick of the value it quantizes.
\<close>

theorem generate_signal_classifies:
  assumes "0 < bar_open b" and "0 < ATR"
  shows "\<exists>s. generate_signal g ATR b = Inr s
     \<and> (s = NoSignal \<longleftrightarrow> bar_close b = bar_open b)
     \<and> ((\<exists>p. s = Signal BUY p) \<longleftrightarrow> bar_open b < bar_close b)
     \<and> ((\<exists>p. s = Signal SELL p) \<longleftrightarrow> bar_close b < bar_open b)
     \<and> (\<forall>p. s = Signal BUY p \<longrightarrow>
            p = format_price g (bar_close b - ATR * 0.1)
            \<and> \<bar>p - (bar_close b - ATR * 0.1)\<bar> \<le> effective_tick g)
     \<and> (\<forall>p. s = Signal SELL p \<longrightarrow>
            p = format_price g (bar_close b + ATR * 0.1)
            \<and> \<bar>p - (bar_close b + ATR * 0.1)\<bar> \<le> effective_tick g)"
proof -
  have e: "0 < effective_tick g" by (rule effective_tick_pos)
  have up: "\<bar>format_price g (bar_close b - ATR * 0.1) - (bar_close b - ATR * 0.1)\<bar>
              \<le> effective_tick g"
    using format_price_error [of g "bar_close b - ATR * 0.1"] e by linarith
  have dn: "\<bar>format_price g (bar_close b + ATR * 0.1) - (bar_close b + ATR * 0.1)\<bar>
              \<le> effective_tick g"
    using format_price_error [of g "bar_close b + ATR * 0.1"] e by linarith
  consider "bar_open b < bar_close b" | "bar_close b < bar_open b" | "bar_close b = bar_open b"
    by linarith
  then show ?thesis
  proof cases
    case 1
    then show ?thesis using up
      by (simp add: generate_signal_positive_open [OF assms(1)])
  next
    case 2
    then show ?thesis using dn
      by (simp add: generate_signal_positive_open [OF assms(1)])
  next
    case 3
    then show ?thesis
      by (simp add: generate_signal_positive_open [OF assms(1)])
  qed
qed

theorem generate_signal_classifies_witness:
  "generate_signal (Some 0.25) 20 \<lparr>bar_open = 2000, bar_high = 2003, bar_low = 1999, bar_close = 2001.1\<rparr>
     = Inr (Signal BUY 1999)
   \<and> \<bar>1999 - (2001.1 - 20 * 0.1 :: real)\<bar> \<le> 0.25"
proof -
  let ?b = "\<lparr>bar_open = 2000, bar_high = 2003, bar_low = 1999, bar_close = 2001.1\<rparr>"
  have h1: "0 < bar_open ?b" by simp
  have h2: "(0::real) < 20" by simp
  have f: "format_price (Some 0.25) (2001.1 - 20 * 0.1) = 1999"
    by (simp add: format_price_def effective_tick_def py_round_def Let_def)
  from generate_signal_classifies [OF h1 h2, of "Some 0.25"]
  obtain s where s: "generate_signal (Some 0.25) 20 ?b = Inr s"
    and buy: "(\<exists>p. s = Signal BUY p) \<longleftrightarrow> bar_open ?b < bar_close ?b"
    and val: "\<forall>p. s = Signal BUY p \<longrightarrow>
            p = format_price (Some 0.25) (bar_close ?b - 20 * 0.1)
            \<and> \<bar>p - (bar_close ?b - 20 * 0.1)\<bar> \<le> effective_tick (Some 0.25)"
    by blast
  have "bar_open ?b < bar_close ?b" by simp
  with buy obtain p where p: "s = Signal BUY p" by blast
  with val have "p = format_price (Some 0.25) (bar_close ?b - 20 * 0.1)"
    and "\<bar>p - (bar_close ?b - 20 * 0.1)\<bar> \<le> effective_tick (Some 0.25)" by blast+
  then show ?thesis using s p f by (simp add: effective_tick_def)
qed

section \<open>Position sizing: properties\<close>

lemma py_int_nonneg: "0 \<le> x \<Longrightarrow> py_int x = \<lfloor>x\<rfloor>"
  by (simp add: py_int_def)

lemma floor_times_le:
  assumes "0 < (p::real)" "0 < A"
  shows "of_int \<lfloor>A * L / p\<rfloor> * p / A \<le> L"
proof -
  have "of_int \<lfloor>A * L / p\<rfloor> \<le> A * L / p" by (rule of_int_floor_le)
  then have "of_int \<lfloor>A * L / p\<rfloor> * p \<le> A * L / p * p"
    using assms(1) by (intro mult_right_mono) auto
  then have "of_int \<lfloor>A * L / p\<rfloor> * p \<le> L * A" using assms(1) by (simp add: mult.commute)
  then show ?thesis using assms(2) by (simp add: pos_divide_le_eq)
qed

text \<open>
  Claim C4. For positive account size, risk fraction, leverage cap, price and R, the
  quantity computed before the final check is the smaller of \<open>floor(A * r / R)\<close> and
  \<open>floor(A * L / price)\<close>, each raised to at least 1; the final check fires exactly when
  that quantity times the price over the account size exceeds the cap, and replaces it
  by \<open>floor(A * L / price)\<close>; after the check the quantity times the price over the
  account size is at most the cap.
\<close>

theorem position_size_min_and_bound:
  assumes "0 < A" and "0 < r" and "0 < L" and "0 < p" and "0 < R"
  shows "qty_risk (position_size A L r R p) = max 1 \<lfloor>A * r / R\<rfloor>
     \<and> qty_leverage (position_size A L r R p) = max 1 \<lfloor>A * L / p\<rfloor>
     \<and> qty_min (position_size A L r R p)
         = min (max 1 \<lfloor>A * r / R\<rfloor>) (max 1 \<lfloor>A * L / p\<rfloor>)
     \<and> 1 \<le> qty_min (position_size A L r R p)
     \<and> (leverage_check_fired (position_size A L r R p)
          \<longleftrightarrow> of_int (qty_min (position_size A L r R p)) * p / A > L)
     \<and> qty_final (position_size A L r R p)
         = (if leverage_check_fired (position_size A L r R p) then \<lfloor>A * L / p\<rfloor>
            else qty_min (position_size A L r R p))
     \<and> of_int (qty_final (position_size A L r R p)) * p / A \<le> L"
proof -
  have a: "py_int (A * r / R) = \<lfloor>A * r / R\<rfloor>" using assms by (intro py_int_nonneg) simp
  have b: "py_int (A * L / p) = \<lfloor>A * L / p\<rfloor>" using assms by (intro py_int_nonneg) simp
  have c: "of_int \<lfloor>A * L / p\<rfloor> * p / A \<le> L" using assms by (intro floor_times_le)
  show ?thesis using c
    by (simp add: position_size_def Let_def a b not_less)
qed

text \<open>
  With exact arithmetic the final check can only fire when \<open>floor(A * L / price)\<close> is
  zero, and then the final quantity is zero.
\<close>

lemma leverage_check_gives_zero:
  assumes "0 < A" and "0 < r" and "0 < L" and "0 < p" and "0 < R"
    and "leverage_check_fired (position_size A L r R p)"
  shows "qty_final (position_size A L r R p) = 0"
proof -
  have b: "py_int (A * L / p) = \<lfloor>A * L / p\<rfloor>" using assms by (intro py_int_nonneg) simp
  have c: "of_int \<lfloor>A * L / p\<rfloor> * p / A \<le> L" using assms by (intro floor_times_le)
  have nn: "0 \<le> \<lfloor>A * L / p\<rfloor>" using assms by simp
  let ?q = "min (max 1 (py_int (A * r / R))) (max 1 \<lfloor>A * L / p\<rfloor>)"
  from assms(6) have fired: "of_int ?q * p / A > L"
    by (simp add: position_size_def Let_def b split: if_splits)
  have "\<lfloor>A * L / p\<rfloor> < 1"
  proof (rule ccontr)
    assume "\<not> \<lfloor>A * L / p\<rfloor> < 1"
    then have "?q \<le> \<lfloor>A * L / p\<rfloor>" by simp
    then have "(of_int ?q :: real) \<le> of_int \<lfloor>A * L / p\<rfloor>" by (simp only: of_int_le_iff)
    then have "of_int ?q * p / A \<le> of_int \<lfloor>A * L / p\<rfloor> * p / A"
      using assms(1,4) by (intro divide_right_mono mult_right_mono) auto
    with c fired show False by linarith
  qed
  with nn have "\<lfloor>A * L / p\<rfloor> = 0" by linarith
  with assms(6) show ?thesis by (simp add: position_size_def Let_def b split: if_splits)
qed

theorem position_size_min_and_bound_witness:
  "qty_min (position_size 25000 4 0.01 2 2000) = 50
   \<and> qty_final (position_size 25000 4 0.01 2 2000) = 50
   \<and> (50 :: real) * 2000 / 25000 \<le> 4"
proof -
  have h: "(0::real) < 25000" "(0::real) < 0.01" "(0::real) < 4" "(0::real) < 2000" "(0::real) < 2"
    by simp_all
  have f1: "\<lfloor>25000 * 0.01 / (2::real)\<rfloor> = 125" by simp
  have f2: "\<lfloor>25000 * 4 / (2000::real)\<rfloor> = 50" by simp
  note t = position_size_min_and_bound [OF h(1) h(2) h(3) h(4) h(5)]
  from t have m: "qty_min (position_size 25000 4 0.01 2 2000) = 50"
    unfolding f1 f2 by simp
  from t m have nf: "\<not> leverage_check_fired (position_size 25000 4 0.01 2 2000)"
    by simp
  from t nf m have "qty_final (position_size 25000 4 0.01 2 2000) = 50" by simp
  with m show ?thesis by simp
qed

lemma sizing_at_failing_input:
  "position_size ACCOUNT_SIZE LEVERAGE RISK_PCT 1 100001
     = \<lparr>qty_risk = 250, qty_leverage = 1, qty_min = 1, leverage_check_fired = True,
        qty_final = 0\<rparr>"
  by (simp add: position_size_def ACCOUNT_SIZE_def LEVERAGE_def RISK_PCT_def py_int_def Let_def)

lemma atr_flat:
  "calculate_atr (replicate 14 \<lparr>bar_open = 100, bar_high = 110, bar_low = 100, bar_close = 105\<rparr>) 14 = Some 10"
  by (simp add: calculate_atr_def numeral_eq_Suc)

text \<open>
  Claim C2, at a concrete input. The claim says that the quantity passed to the entry
  order stays at least 1 when the final leverage check fires. With the script's
  constants, R = 1 and a close of 100001 the check fires and the quantity becomes 0;
  the cycle on a rising bar with that close calls \<open>place_trade\<close> with quantity 0.
\<close>

theorem leverage_clamp_submits_zero:
  "position_size ACCOUNT_SIZE LEVERAGE RISK_PCT 1 100001
     = \<lparr>qty_risk = 250, qty_leverage = 1, qty_min = 1, leverage_check_fired = True,
        qty_final = 0\<rparr>
   \<and> run_cycle (Some 0.01)
        [\<lparr>bar_open = 100000, bar_high = 100002, bar_low = 99999, bar_close = 100001\<rparr>]
        0
        (replicate 14 \<lparr>bar_open = 100, bar_high = 110, bar_low = 100, bar_close = 105\<rparr>)
     = PlaceTrade BUY 0 100000"
  using sizing_at_failing_input
  by (simp add: run_cycle_def atr_flat generate_signal_def format_price_def effective_tick_def
        py_round_def Let_def)

section \<open>The cycle: fatal checks and the no-signal exit\<close>

text \<open>
  Claim C8. The cycle ends with a non-zero exit code, before \<open>place_trade\<close> is reached,
  whenever there are fewer than 14 daily bars or the ATR is NaN or not positive; and
  when every earlier check passes and the latest bar closes exactly at its (non-zero)
  open, the cycle ends with exit code 0, again before \<open>place_trade\<close>.
\<close>

theorem run_cycle_fatal_and_no_signal:
  "(length daily_df < 14 \<or> calculate_atr daily_df 14 = None
      \<or> (\<exists>a. calculate_atr daily_df 14 = Some a \<and> a \<le> 0)
     \<longrightarrow> (\<exists>c. run_cycle g df time_diff daily_df = Exited c \<and> c \<noteq> 0))
   \<and> (df \<noteq> [] \<and> time_diff \<le> 300 \<and> 14 \<le> length daily_df
        \<and> (\<exists>a. calculate_atr daily_df 14 = Some a \<and> 0 < a)
        \<and> bar_open (last df) \<noteq> 0 \<and> bar_close (last df) = bar_open (last df)
     \<longrightarrow> run_cycle g df time_diff daily_df = Exited 0)"
proof (intro conjI impI)
  assume "length daily_df < 14 \<or> calculate_atr daily_df 14 = None
      \<or> (\<exists>a. calculate_atr daily_df 14 = Some a \<and> a \<le> 0)"
  then have "run_cycle g df time_diff daily_df = Exited 1"
    by (auto simp: run_cycle_def Let_def)
  then show "\<exists>c. run_cycle g df time_diff daily_df = Exited c \<and> c \<noteq> 0" by simp
next
  assume h: "df \<noteq> [] \<and> time_diff \<le> 300 \<and> 14 \<le> length daily_df
        \<and> (\<exists>a. calculate_atr daily_df 14 = Some a \<and> 0 < a)
        \<and> bar_open (last df) \<noteq> 0 \<and> bar_close (last df) = bar_open (last df)"
  then obtain a where a: "calculate_atr daily_df 14 = Some a" "0 < a" by blast
  have "generate_signal g a (last df) = Inr NoSignal"
    using h by (simp add: generate_signal_def)
  then show "run_cycle g df time_diff daily_df = Exited 0"
    using h a by (simp add: run_cycle_def Let_def)
qed

theorem run_cycle_fatal_and_no_signal_witness:
  "run_cycle (Some 0.01) [\<lparr>bar_open = 2000, bar_high = 2001, bar_low = 1999, bar_close = 2000\<rparr>] 0 []
     \<noteq> Exited 0
   \<and> run_cycle (Some 0.01) [\<lparr>bar_open = 2000, bar_high = 2001, bar_low = 1999, bar_close = 2001\<rparr>] 0
        (replicate 14 \<lparr>bar_open = 100, bar_high = 100, bar_low = 100, bar_close = 100\<rparr>)
     \<noteq> Exited 0
   \<and> run_cycle (Some 0.01) [\<lparr>bar_open = 2000, bar_high = 2001, bar_low = 1999, bar_close = 2000\<rparr>] 0
        (replicate 14 \<lparr>bar_open = 100, bar_high = 110, bar_low = 100, bar_close = 105\<rparr>)
     = Exited 0"
proof -
  let ?flat = "replicate 14 \<lparr>bar_open = 100, bar_high = 100, bar_low = 100, bar_close = 100\<rparr>"
  let ?daily = "replicate 14 \<lparr>bar_open = 100, bar_high = 110, bar_low = 100, bar_close = 105\<rparr>"
  let ?none = "[\<lparr>bar_open = 2000, bar_high = 2001, bar_low = 1999, bar_close = 2000\<rparr>]"
  let ?up = "[\<lparr>bar_open = 2000, bar_high = 2001, bar_low = 1999, bar_close = 2001\<rparr>]"
  have short: "length ([] :: bar list) < 14" by simp
  have zero: "\<exists>a. calculate_atr ?flat 14 = Some a \<and> a \<le> 0"
    by (simp add: calculate_atr_def numeral_eq_Suc)
  have good: "\<exists>a. calculate_atr ?daily 14 = Some a \<and> 0 < a"
    by (simp add: calculate_atr_def numeral_eq_Suc)
  have pre: "?none \<noteq> [] \<and> (0::real) \<le> 300 \<and> 14 \<le> length ?daily
        \<and> (\<exists>a. calculate_atr ?daily 14 = Some a \<and> 0 < a)
        \<and> bar_open (last ?none) \<noteq> 0 \<and> bar_close (last ?none) = bar_open (last ?none)"
    using good by simp
  have a: "\<exists>c. run_cycle (Some 0.01) ?none 0 [] = Exited c \<and> c \<noteq> 0"
    using run_cycle_fatal_and_no_signal [of "[]" "Some 0.01" ?none 0] short by blast
  have b: "\<exists>c. run_cycle (Some 0.01) ?up 0 ?flat = Exited c \<and> c \<noteq> 0"
    using run_cycle_fatal_and_no_signal [of ?flat "Some 0.01" ?up 0] zero by blast
  have c: "run_cycle (Some 0.01) ?none 0 ?daily = Exited 0"
    using run_cycle_fatal_and_no_signal [of ?daily "Some 0.01" ?none 0] pre by blast
  from a b c show ?thesis by auto
qed

section \<open>The protective stop price\<close>

lemma format_price_multiple:
  "format_price g (of_int k * effective_tick g) = of_int k * effective_tick g"
  using effective_tick_pos [of g] by (simp add: format_price_def py_round_of_int)

lemma format_price_idem: "format_price g (format_price g p) = format_price g p"
  unfolding format_price_def [of g p] by (rule format_price_multiple)



lemma upt_10: "[0..<10] = [0, 1, 2, 3, 4, 5, 6, 7, 8, 9]"
  by (simp add: upt_rec)



section \<open>The stop order retry\<close>

lemma stop_status_loop_early:
  assumes "\<forall>i\<in>set js. i < 8"
    and "\<forall>i\<in>set js. sl_status env i \<notin> {''Submitted'', ''PreSubmitted'', ''Filled''}"
  shows "stop_status_loop env tick sl q P (js @ rest) = stop_status_loop env tick sl q P rest"
  using assms by (induction js) (simp_all add: Let_def)

lemma upt_10_split: "[0..<10] = [0, 1, 2, 3, 4, 5, 6, 7] @ [8, 9]"
  by (simp add: upt_rec)

lemma stop_status_loop_stuck:
  assumes "\<forall>i<8. sl_status env i \<notin> {''Submitted'', ''PreSubmitted'', ''Filled''}"
  shows "stop_status_loop env tick sl q P [0..<10] = stop_status_loop env tick sl q P [8, 9]"
  unfolding upt_10_split
  by (rule stop_status_loop_early) (use assms in auto)

lemma retry_price_one_cent:
  assumes "effective_tick tick = 0.01"
  shows "retry_price tick sl (format_price tick p)
           = format_price tick p + (if sl = BUY then 0.01 else - 0.01)"
proof -
  define k where "k = py_round (p / effective_tick tick)"
  have fp: "format_price tick p = of_int k * 0.01"
    by (simp add: format_price_def k_def assms)
  have up: "of_int k * 0.01 + 0.01 = of_int (k + 1) * effective_tick tick"
    by (simp add: assms algebra_simps)
  have dn: "of_int k * 0.01 - 0.01 = of_int (k - 1) * effective_tick tick"
    by (simp add: assms algebra_simps)
  show ?thesis
  proof (cases "sl = BUY")
    case True
    then show ?thesis
      unfolding retry_price_def Let_def fp
      using format_price_multiple [of tick "k + 1"] up by simp
  next
    case False
    then show ?thesis
      unfolding retry_price_def Let_def fp
      using format_price_multiple [of tick "k - 1"] dn by simp
  qed
qed

lemma retry_price_direction:
  "(sl = BUY \<longrightarrow> format_price tick p \<le> retry_price tick sl (format_price tick p))
   \<and> (sl = SELL \<longrightarrow> retry_price tick sl (format_price tick p) \<le> format_price tick p)"
proof -
  have "format_price tick (format_price tick p) \<le> format_price tick (format_price tick p + 0.01)"
    by (intro format_price_mono) simp
  moreover have "format_price tick (format_price tick p - 0.01)
                   \<le> format_price tick (format_price tick p)"
    by (intro format_price_mono) simp
  ultimately show ?thesis
    by (cases sl) (simp_all add: retry_price_def Let_def format_price_idem)
qed

text \<open>
  Claim C3, as amended. Let \<open>j\<close> (8 or 9) be the first attempt at which the first stop
  order, not accepted so far, shows \<open>PendingSubmit\<close> near the cap. The order is then
  cancelled and a new stop order is submitted at \<open>format_price(stop + 0.01)\<close> for a
  BUY-side stop and \<open>format_price(stop - 0.01)\<close> for a SELL-side stop: a nudge of one
  cent, not of one tick. This happens exactly once (for \<open>j = 8\<close>: provided the
  resubmitted order is reported \<open>Submitted\<close> or \<open>PreSubmitted\<close>, or the cancelled order
  no longer shows \<open>PendingSubmit\<close> at attempt 9). The new price is never on the wrong
  side of the old one, and when the effective tick is 0.01 it differs from it by
  exactly 0.01, that is by one tick.
\<close>

theorem stoploss_retry_one_cent:
  fixes env tick act q sp fp j
  defines "sl \<equiv> stop_action act"
    and "P \<equiv> format_price tick (protective_stop_price act sp fp)"
  assumes near_cap: "j = 8 \<or> j = 9"
    and early: "\<forall>i<j. sl_status env i \<notin> {''Submitted'', ''PreSubmitted'', ''Filled''}"
    and first: "\<forall>i<j. 8 \<le> i \<longrightarrow> sl_status env i \<noteq> ''PendingSubmit''"
    and stuck: "sl_status env j = ''PendingSubmit''"
    and once: "j = 8 \<longrightarrow> retry_status env 8 \<in> {''Submitted'', ''PreSubmitted''}
                 \<or> sl_status env 9 \<noteq> ''PendingSubmit''"
  shows "(\<exists>r. place_stoploss_order env tick act q sp fp
            = (r, [CancelAllOrders, PlaceStop sl q P, CancelOrder,
                   PlaceStop sl q (format_price tick (P + (if sl = BUY then 0.01 else - 0.01)))]))
     \<and> (sl = BUY \<longrightarrow> P \<le> format_price tick (P + 0.01))
     \<and> (sl = SELL \<longrightarrow> format_price tick (P - 0.01) \<le> P)
     \<and> (effective_tick tick = 0.01 \<longrightarrow>
          format_price tick (P + (if sl = BUY then 0.01 else - 0.01))
            = P + (if sl = BUY then 0.01 else - 0.01))"
proof -
  let ?P' = "format_price tick (P + (if sl = BUY then 0.01 else - 0.01))"
  have rp: "retry_price tick sl P = ?P'" by (simp add: retry_price_def Let_def)
  have early8: "\<forall>i<8. sl_status env i \<notin> {''Submitted'', ''PreSubmitted'', ''Filled''}"
    using near_cap early by auto
  have loop: "\<exists>r. stop_status_loop env tick sl q P [8, 9]
                 = (r, [CancelOrder, PlaceStop sl q ?P'])"
  proof (cases "j = 8")
    case True
    then show ?thesis using stuck once by (auto simp: Let_def rp)
  next
    case False
    then have j: "j = 9" using near_cap by simp
    have a8: "sl_status env 8 \<notin> {''Submitted'', ''PreSubmitted'', ''Filled''}"
      using early j by simp
    have p8: "sl_status env 8 \<noteq> ''PendingSubmit''" using first j by simp
    have s9: "sl_status env 9 = ''PendingSubmit''" using stuck j by simp
    show ?thesis using a8 p8 s9 by (auto simp: Let_def rp)
  qed
  have "\<exists>r. place_stoploss_order env tick act q sp fp
            = (r, [CancelAllOrders, PlaceStop sl q P, CancelOrder, PlaceStop sl q ?P'])"
  proof -
    from loop obtain r where r: "stop_status_loop env tick sl q P [8, 9]
                 = (r, [CancelOrder, PlaceStop sl q ?P'])" by blast
    show ?thesis
      using r stop_status_loop_stuck [OF early8, of tick sl q P]
      by (cases r) (simp_all add: place_stoploss_order_def Let_def sl_def [symmetric] P_def [symmetric])
  qed
  moreover have "sl = BUY \<longrightarrow> P \<le> format_price tick (P + 0.01)"
    using retry_price_direction [of sl tick "protective_stop_price act sp fp"]
    by (auto simp: P_def retry_price_def Let_def)
  moreover have "sl = SELL \<longrightarrow> format_price tick (P - 0.01) \<le> P"
    using retry_price_direction [of sl tick "protective_stop_price act sp fp"]
    by (auto simp: P_def retry_price_def Let_def)
  moreover have "effective_tick tick = 0.01 \<longrightarrow> ?P' = P + (if sl = BUY then 0.01 else - 0.01)"
    using retry_price_one_cent [of tick sl "protective_stop_price act sp fp"]
    unfolding P_def [symmetric] rp by blast
  ultimately show ?thesis by blast
qed

theorem stoploss_retry_one_cent_witness:
  "place_stoploss_order stuck_then_accepted_env (Some 0.01) BUY 10 98 100
     = (True, [CancelAllOrders, PlaceStop SELL 10 98, CancelOrder, PlaceStop SELL 10 97.99])"
proof -
  have h0: "(8::nat) = 8 \<or> (8::nat) = 9" by simp
  have h1: "\<forall>i<8. sl_status stuck_then_accepted_env i \<notin> {''Submitted'', ''PreSubmitted'', ''Filled''}"
    by (simp add: stuck_then_accepted_env_def)
  have h1': "\<forall>i<8. 8 \<le> i \<longrightarrow> sl_status stuck_then_accepted_env i \<noteq> ''PendingSubmit''"
    by simp
  have h2: "sl_status stuck_then_accepted_env 8 = ''PendingSubmit''"
    by (simp add: stuck_then_accepted_env_def)
  have h3: "(8::nat) = 8 \<longrightarrow> retry_status stuck_then_accepted_env 8 \<in> {''Submitted'', ''PreSubmitted''}
            \<or> sl_status stuck_then_accepted_env 9 \<noteq> ''PendingSubmit''"
    by (simp add: stuck_then_accepted_env_def)
  have P: "format_price (Some 0.01) (protective_stop_price BUY 98 100) = 98"
    by (simp add: stop_action_def protective_stop_price_def format_price_def effective_tick_def
          py_round_def Let_def)
  have t: "effective_tick (Some 0.01) = 0.01" by (simp add: effective_tick_def)
  have s: "stop_action BUY = SELL" by (simp add: stop_action_def)
  note inst = stoploss_retry_one_cent [OF h0 h1 h1' h2 h3, where tick = "Some 0.01" and act = BUY
      and q = 10 and sp = 98 and fp = 100, unfolded P s]
  from inst t have P': "format_price (Some 0.01) (98 + (if SELL = BUY then 0.01 else - 0.01))
                        = 98 + (if SELL = BUY then 0.01 else - 0.01)" by blast
  from inst obtain r where run:
    "place_stoploss_order stuck_then_accepted_env (Some 0.01) BUY 10 98 100
       = (r, [CancelAllOrders, PlaceStop SELL 10 98, CancelOrder,
              PlaceStop SELL 10 (format_price (Some 0.01) (98 + (if SELL = BUY then 0.01 else - 0.01)))])"
    by blast
  have "fst (place_stoploss_order stuck_then_accepted_env (Some 0.01) BUY 10 98 100) = True"
    by (simp add: place_stoploss_order_def stuck_then_accepted_env_def upt_10 Let_def
          split: prod.splits)
  with run have "r = True" by simp
  with run P' show ?thesis by simp
qed

text \<open>
  With a tick of 0.25 the one-cent nudge is rounded away: the order resubmitted for a
  stop at 98 is again at 98, zero ticks from the original.
\<close>

theorem stoploss_retry_coarse_tick_counterexample:
  "place_stoploss_order stuck_then_accepted_env (Some 0.25) BUY 10 98 100
     = (True, [CancelAllOrders, PlaceStop SELL 10 98, CancelOrder, PlaceStop SELL 10 98])"
  by (simp add: place_stoploss_order_def stuck_then_accepted_env_def upt_10 stop_action_def
        protective_stop_price_def retry_price_def format_price_def effective_tick_def
        py_round_def Let_def)

section \<open>The end-of-day window\<close>

lemma eod_policy:
  "policy_exit ''EOD'' maxd w
     = (if w_hour w = 15 \<and> 50 \<le> w_minute w then Some ''EOD Market Close'' else None)"
  by (simp add: policy_exit_def EOD_HOUR_def EOD_MINUTE_START_def)

text \<open>
  Claim C1, as amended. Under the EndOfDay policy a pass of the monitor ends in a policy
  close exactly when the US/Eastern wall clock shows hour 15 and a minute of at least
  50, that is from 15:50 to 15:59; the close is then invoked with the reason
  ``EOD Market Close'' and the loop ends in that pass. No pass before 15:50 and no pass
  in hour 16 or later ends in a policy close.
\<close>

theorem eod_close_only_in_hour_15:
  "((\<exists>reason ok trs'. monitor_step symbol act q ep sp ''EOD'' maxd lu trs w
        = Finished (PolicyClose reason ok) trs')
      \<longleftrightarrow> w_hour w = 15 \<and> 50 \<le> w_minute w)
   \<and> (w_hour w = 15 \<and> 50 \<le> w_minute w \<longrightarrow>
        monitor_step symbol act q ep sp ''EOD'' maxd lu trs w
          = Finished
              (PolicyClose ''EOD Market Close''
                 (fst (close_position_at_market act q ep ''EOD Market Close''
                         (w_close_polls w) (w_end_elapsed w) trs)))
              (snd (close_position_at_market act q ep ''EOD Market Close''
                      (w_close_polls w) (w_end_elapsed w) trs))
        \<and> monitor_loop symbol act q ep sp ''EOD'' maxd lu trs (w # ws)
          = Some
              (PolicyClose ''EOD Market Close''
                 (fst (close_position_at_market act q ep ''EOD Market Close''
                         (w_close_polls w) (w_end_elapsed w) trs)),
               snd (close_position_at_market act q ep ''EOD Market Close''
                      (w_close_polls w) (w_end_elapsed w) trs)))
   \<and> (w_hour w * 60 + w_minute w < 15 * 60 + 50 \<or> 16 \<le> w_hour w \<longrightarrow>
        (\<forall>reason ok trs'. monitor_step symbol act q ep sp ''EOD'' maxd lu trs w
           \<noteq> Finished (PolicyClose reason ok) trs'))"
proof -
  have in_window: "w_hour w = 15 \<and> 50 \<le> w_minute w \<Longrightarrow>
        monitor_step symbol act q ep sp ''EOD'' maxd lu trs w
          = Finished
              (PolicyClose ''EOD Market Close''
                 (fst (close_position_at_market act q ep ''EOD Market Close''
                         (w_close_polls w) (w_end_elapsed w) trs)))
              (snd (close_position_at_market act q ep ''EOD Market Close''
                      (w_close_polls w) (w_end_elapsed w) trs))"
    by (simp add: monitor_step_def eod_policy split: prod.splits)
  have outside: "monitor_step symbol act q ep sp ''EOD'' maxd lu trs w
           \<noteq> Finished (PolicyClose reason ok) trs'"
    if "\<not> (w_hour w = 15 \<and> 50 \<le> w_minute w)" for reason ok trs'
  proof -
    have pe: "policy_exit ''EOD'' maxd w = None" using that by (simp add: eod_policy)
    show ?thesis by (simp add: monitor_step_def pe Let_def split: option.splits)
  qed
  have a: "(\<exists>reason ok trs'. monitor_step symbol act q ep sp ''EOD'' maxd lu trs w
        = Finished (PolicyClose reason ok) trs')
      \<longleftrightarrow> w_hour w = 15 \<and> 50 \<le> w_minute w"
    using in_window outside by metis
  have c: "w_hour w * 60 + w_minute w < 15 * 60 + 50 \<or> 16 \<le> w_hour w \<longrightarrow>
        (\<forall>reason ok trs'. monitor_step symbol act q ep sp ''EOD'' maxd lu trs w
           \<noteq> Finished (PolicyClose reason ok) trs')"
  proof
    assume "w_hour w * 60 + w_minute w < 15 * 60 + 50 \<or> 16 \<le> w_hour w"
    then have "\<not> (w_hour w = 15 \<and> 50 \<le> w_minute w)" by auto
    then show "\<forall>reason ok trs'. monitor_step symbol act q ep sp ''EOD'' maxd lu trs w
           \<noteq> Finished (PolicyClose reason ok) trs'"
      using outside by blast
  qed
  show ?thesis using a c in_window by simp
qed

theorem eod_close_only_in_hour_15_witness:
  "monitor_trade_and_exit ''XAUUSD'' BUY 10 2000 1998 ''EOD'' 60 []
      [wake_at 15 49 [''XAUUSD''] [], wake_at 15 50 [''XAUUSD''] [(''Filled'', 2001)]]
     = Some (PolicyClose ''EOD Market Close'' True, [])"
proof -
  let ?w1 = "wake_at 15 49 [''XAUUSD''] []"
  let ?w2 = "wake_at 15 50 [''XAUUSD''] [(''Filled'', 2001)]"
  have before: "w_hour ?w1 * 60 + w_minute ?w1 < 15 * 60 + 50 \<or> 16 \<le> w_hour ?w1"
    by (simp add: wake_at_def)
  have inside: "w_hour ?w2 = 15 \<and> 50 \<le> w_minute ?w2" by (simp add: wake_at_def)
  have first: "monitor_step ''XAUUSD'' BUY 10 2000 1998 ''EOD'' 60 0 [] ?w1 = Continue 0"
    by (simp add: monitor_step_def eod_policy wake_at_def)
  have cl: "close_position_at_market BUY 10 2000 ''EOD Market Close''
              (w_close_polls ?w2) (w_end_elapsed ?w2) [] = (True, [])"
    by (simp add: close_position_at_market_def wake_at_def)
  from eod_close_only_in_hour_15 [of "''XAUUSD''" BUY 10 2000 1998 60 0 "[]" ?w2 "[]"] inside
  have "monitor_loop ''XAUUSD'' BUY 10 2000 1998 ''EOD'' 60 0 [] [?w2]
          = Some (PolicyClose ''EOD Market Close'' True, [])"
    unfolding cl by simp
  then show ?thesis using first by (simp add: monitor_trade_and_exit_def)
qed

text \<open>
  Wakes at 16:00, 16:05 and 23:59 are at or after 15:50, yet none of them triggers the
  end-of-day close: the loop is still running after them.
\<close>

theorem eod_after_hour_15_counterexample:
  "15 * 60 + 50 \<le> w_hour (wake_at 16 0 [''XAUUSD''] [(''Filled'', 2001)]) * 60
                     + w_minute (wake_at 16 0 [''XAUUSD''] [(''Filled'', 2001)])
   \<and> monitor_step ''XAUUSD'' BUY 10 2000 1998 ''EOD'' 60 0 []
        (wake_at 16 0 [''XAUUSD''] [(''Filled'', 2001)]) = Continue 0
   \<and> monitor_trade_and_exit ''XAUUSD'' BUY 10 2000 1998 ''EOD'' 60 []
        [wake_at 16 0 [''XAUUSD''] [(''Filled'', 2001)],
         wake_at 16 5 [''XAUUSD''] [(''Filled'', 2001)],
         wake_at 23 59 [''XAUUSD''] [(''Filled'', 2001)]] = None"
  by (simp add: monitor_trade_and_exit_def monitor_step_def eod_policy wake_at_def)

section \<open>Stop-triggered exit and failed policy close\<close>

lemma update_first_length: "length (update_first P f ts) = length ts"
  by (induction ts) simp_all

lemma update_first_hit:
  "i < length ts \<Longrightarrow> P (ts ! i) \<Longrightarrow> (\<forall>j<i. \<not> P (ts ! j))
     \<Longrightarrow> update_first P f ts ! i = f (ts ! i)"
proof (induction ts arbitrary: i)
  case Nil
  then show ?case by simp
next
  case (Cons t ts)
  show ?case
  proof (cases i)
    case 0
    with Cons.prems show ?thesis by simp
  next
    case (Suc k)
    with Cons.prems have nt: "\<not> P t" by auto
    have "\<forall>j<k. \<not> P (ts ! j)"
    proof (intro allI impI)
      fix j assume "j < k"
      then have "Suc j < i" using Suc by simp
      with Cons.prems(3) have "\<not> P ((t # ts) ! Suc j)" by blast
      then show "\<not> P (ts ! j)" by simp
    qed
    with Cons.IH [of k] Cons.prems Suc nt show ?thesis by simp
  qed
qed

lemma update_first_miss:
  "i < length ts \<Longrightarrow> \<not> (P (ts ! i) \<and> (\<forall>j<i. \<not> P (ts ! j)))
     \<Longrightarrow> update_first P f ts ! i = ts ! i"
proof (induction ts arbitrary: i)
  case Nil
  then show ?case by simp
next
  case (Cons t ts)
  show ?case
  proof (cases "P t")
    case True
    with Cons.prems show ?thesis by (cases i) auto
  next
    case False
    show ?thesis
    proof (cases i)
      case 0
      with Cons.prems False show ?thesis by simp
    next
      case (Suc k)
      have "\<not> (P (ts ! k) \<and> (\<forall>j<k. \<not> P (ts ! j)))"
      proof
        assume h: "P (ts ! k) \<and> (\<forall>j<k. \<not> P (ts ! j))"
        have "\<forall>j<i. \<not> P ((t # ts) ! j)"
        proof (intro allI impI)
          fix j assume "j < i"
          then show "\<not> P ((t # ts) ! j)" using h False Suc by (cases j) auto
        qed
        with h Suc Cons.prems(2) show False by simp
      qed
      with Cons.IH [of k] Cons.prems Suc False show ?thesis by simp
    qed
  qed
qed

text \<open>
  Claim C7. In a pass where no policy exit fires and the instrument is not in the
  broker's position list (entry price non-zero, as \<open>if fill_price\<close> guarantees for the
  script's call), the monitor takes the stop-triggered path and the loop ends in that
  pass. The exit price is the recorded stop price, the PnL is \<open>(exit - entry) * qty\<close> for
  a BUY and \<open>(entry - exit) * qty\<close> for a SELL, rounded to two places, with the
  percentage likewise; exactly the first record whose entry price is within 0.1 of the
  recorded entry price is updated, with exit reason ``Stop Loss Triggered'' and the
  result Profit, Loss or Breakeven by the sign of the PnL; every other record is
  unchanged.
\<close>

theorem stop_triggered_updates_first_match:
  assumes nopolicy: "policy_exit strategy maxd w = None"
    and gone: "symbol \<notin> set (w_positions w)"
    and entry: "ep \<noteq> 0"
  shows "\<exists>trs'.
       monitor_step symbol act q ep sp strategy maxd lu trs w = Finished StopTriggered trs'
     \<and> monitor_loop symbol act q ep sp strategy maxd lu trs (w # ws) = Some (StopTriggered, trs')
     \<and> length trs' = length trs
     \<and> (\<forall>i<length trs.
          entry_matches ep (trs ! i) \<and> (\<forall>j<i. \<not> entry_matches ep (trs ! j)) \<longrightarrow>
            ExitPrice (trs' ! i) = sp
          \<and> PnL (trs' ! i)
              = round2 (if act = BUY then (sp - ep) * of_int q else (ep - sp) * of_int q)
          \<and> PnLPercent (trs' ! i)
              = round2 (if act = BUY then (sp - ep) / ep * 100 else (ep - sp) / ep * 100)
          \<and> Result (trs' ! i)
              = (if (if act = BUY then (sp - ep) * of_int q else (ep - sp) * of_int q) > 0
                 then ''Profit''
                 else if (if act = BUY then (sp - ep) * of_int q else (ep - sp) * of_int q) < 0
                 then ''Loss'' else ''Breakeven'')
          \<and> ExitReason (trs' ! i) = ''Stop Loss Triggered''
          \<and> Duration (trs' ! i) = Some (duration_hms (w_end_elapsed w))
          \<and> ExitTime (trs' ! i) = Some (w_end_elapsed w)
          \<and> Direction (trs' ! i) = Direction (trs ! i)
          \<and> EntryPrice (trs' ! i) = EntryPrice (trs ! i)
          \<and> Quantity (trs' ! i) = Quantity (trs ! i)
          \<and> StopLoss (trs' ! i) = StopLoss (trs ! i))
     \<and> (\<forall>i<length trs.
          \<not> (entry_matches ep (trs ! i) \<and> (\<forall>j<i. \<not> entry_matches ep (trs ! j))) \<longrightarrow>
            trs' ! i = trs ! i)"
proof -
  define f where "f = close_trade sp (profit_loss act ep sp q) (profit_percent act ep sp)
                        (w_end_elapsed w) ''Stop Loss Triggered''"
  define trs' where "trs' = update_first (entry_matches ep) f trs"
  have step: "monitor_step symbol act q ep sp strategy maxd lu trs w = Finished StopTriggered trs'"
    using nopolicy gone entry by (simp add: monitor_step_def Let_def trs'_def f_def)
  then have loop: "monitor_loop symbol act q ep sp strategy maxd lu trs (w # ws)
                     = Some (StopTriggered, trs')"
    by simp
  have len: "length trs' = length trs" by (simp add: trs'_def update_first_length)
  have hit: "trs' ! i = f (trs ! i)"
    if "i < length trs" "entry_matches ep (trs ! i)" "\<forall>j<i. \<not> entry_matches ep (trs ! j)" for i
    unfolding trs'_def using that by (rule update_first_hit)
  have miss: "trs' ! i = trs ! i"
    if "i < length trs" "\<not> (entry_matches ep (trs ! i) \<and> (\<forall>j<i. \<not> entry_matches ep (trs ! j)))"
    for i
    unfolding trs'_def using that by (rule update_first_miss)
  have fields: "ExitPrice (f t) = sp
          \<and> PnL (f t) = round2 (if act = BUY then (sp - ep) * of_int q else (ep - sp) * of_int q)
          \<and> PnLPercent (f t)
              = round2 (if act = BUY then (sp - ep) / ep * 100 else (ep - sp) / ep * 100)
          \<and> Result (f t)
              = (if (if act = BUY then (sp - ep) * of_int q else (ep - sp) * of_int q) > 0
                 then ''Profit''
                 else if (if act = BUY then (sp - ep) * of_int q else (ep - sp) * of_int q) < 0
                 then ''Loss'' else ''Breakeven'')
          \<and> ExitReason (f t) = ''Stop Loss Triggered''
          \<and> Duration (f t) = Some (duration_hms (w_end_elapsed w))
          \<and> ExitTime (f t) = Some (w_end_elapsed w)
          \<and> Direction (f t) = Direction t
          \<and> EntryPrice (f t) = EntryPrice t
          \<and> Quantity (f t) = Quantity t
          \<and> StopLoss (f t) = StopLoss t" for t
    by (simp add: f_def close_trade_def profit_loss_def profit_percent_def result_of_def)
  have A: "\<forall>i<length trs.
          entry_matches ep (trs ! i) \<and> (\<forall>j<i. \<not> entry_matches ep (trs ! j)) \<longrightarrow>
            ExitPrice (trs' ! i) = sp
          \<and> PnL (trs' ! i)
              = round2 (if act = BUY then (sp - ep) * of_int q else (ep - sp) * of_int q)
          \<and> PnLPercent (trs' ! i)
              = round2 (if act = BUY then (sp - ep) / ep * 100 else (ep - sp) / ep * 100)
          \<and> Result (trs' ! i)
              = (if (if act = BUY then (sp - ep) * of_int q else (ep - sp) * of_int q) > 0
                 then ''Profit''
                 else if (if act = BUY then (sp - ep) * of_int q else (ep - sp) * of_int q) < 0
                 then ''Loss'' else ''Breakeven'')
          \<and> ExitReason (trs' ! i) = ''Stop Loss Triggered''
          \<and> Duration (trs' ! i) = Some (duration_hms (w_end_elapsed w))
          \<and> ExitTime (trs' ! i) = Some (w_end_elapsed w)
          \<and> Direction (trs' ! i) = Direction (trs ! i)
          \<and> EntryPrice (trs' ! i) = EntryPrice (trs ! i)
          \<and> Quantity (trs' ! i) = Quantity (trs ! i)
          \<and> StopLoss (trs' ! i) = StopLoss (trs ! i)"
  proof (intro allI impI)
    fix i
    assume i: "i < length trs"
      and m: "entry_matches ep (trs ! i) \<and> (\<forall>j<i. \<not> entry_matches ep (trs ! j))"
    then have "trs' ! i = f (trs ! i)" using hit by blast
    then show "ExitPrice (trs' ! i) = sp
          \<and> PnL (trs' ! i)
              = round2 (if act = BUY then (sp - ep) * of_int q else (ep - sp) * of_int q)
          \<and> PnLPercent (trs' ! i)
              = round2 (if act = BUY then (sp - ep) / ep * 100 else (ep - sp) / ep * 100)
          \<and> Result (trs' ! i)
              = (if (if act = BUY then (sp - ep) * of_int q else (ep - sp) * of_int q) > 0
                 then ''Profit''
                 else if (if act = BUY then (sp - ep) * of_int q else (ep - sp) * of_int q) < 0
                 then ''Loss'' else ''Breakeven'')
          \<and> ExitReason (trs' ! i) = ''Stop Loss Triggered''
          \<and> Duration (trs' ! i) = Some (duration_hms (w_end_elapsed w))
          \<and> ExitTime (trs' ! i) = Some (w_end_elapsed w)
          \<and> Direction (trs' ! i) = Direction (trs ! i)
          \<and> EntryPrice (trs' ! i) = EntryPrice (trs ! i)
          \<and> Quantity (trs' ! i) = Quantity (trs ! i)
          \<and> StopLoss (trs' ! i) = StopLoss (trs ! i)"
      using fields [of "trs ! i"] by simp
  qed
  have B: "\<forall>i<length trs.
          \<not> (entry_matches ep (trs ! i) \<and> (\<forall>j<i. \<not> entry_matches ep (trs ! j))) \<longrightarrow>
            trs' ! i = trs ! i"
    using miss by blast
  from step loop len A B show ?thesis by blast
qed

text \<open>
  The scenario of the claim: BUY at 2000.00, quantity 10, stop 1998.00, position gone:
  exit price 1998, PnL -20, result ``Loss''.
\<close>

theorem stop_triggered_updates_first_match_witness:
  "monitor_trade_and_exit ''XAUUSD'' BUY 10 2000 1998 ''EOD'' 60
       [new_trade BUY 2000 10 1998] [wake_at 11 30 [] []]
     = Some (StopTriggered,
         [\<lparr>Direction = BUY, EntryPrice = Some 2000, Quantity = 10, StopLoss = 1998,
           PnL = - 20, PnLPercent = - 0.1, Duration = Some (0, 0, 7), Result = ''Loss'',
           ExitTime = Some 7, ExitReason = ''Stop Loss Triggered'', ExitPrice = 1998\<rparr>])"
proof -
  let ?w = "wake_at 11 30 [] []"
  let ?trs = "[new_trade BUY 2000 10 1998]"
  have h1: "policy_exit ''EOD'' 60 ?w = None" by (simp add: eod_policy wake_at_def)
  have h2: "''XAUUSD'' \<notin> set (w_positions ?w)" by (simp add: wake_at_def)
  have h3: "(2000::real) \<noteq> 0" by simp
  from stop_triggered_updates_first_match [OF h1 h2 h3, of BUY 10 1998 0 ?trs "[]"]
  obtain trs' where
    step: "monitor_step ''XAUUSD'' BUY 10 2000 1998 ''EOD'' 60 0 ?trs ?w = Finished StopTriggered trs'"
    and loop: "monitor_loop ''XAUUSD'' BUY 10 2000 1998 ''EOD'' 60 0 ?trs [?w] = Some (StopTriggered, trs')"
    by blast
  have "monitor_step ''XAUUSD'' BUY 10 2000 1998 ''EOD'' 60 0 ?trs ?w
     = Finished StopTriggered
         [\<lparr>Direction = BUY, EntryPrice = Some 2000, Quantity = 10, StopLoss = 1998,
           PnL = - 20, PnLPercent = - 0.1, Duration = Some (0, 0, 7), Result = ''Loss'',
           ExitTime = Some 7, ExitReason = ''Stop Loss Triggered'', ExitPrice = 1998\<rparr>]"
    by (simp add: monitor_step_def eod_policy wake_at_def new_trade_def entry_matches_def close_trade_def
          profit_loss_def profit_percent_def result_of_def round2_def py_round_def
          duration_hms_def py_int_def Let_def)
  with step have "trs' = [\<lparr>Direction = BUY, EntryPrice = Some 2000, Quantity = 10, StopLoss = 1998,
           PnL = - 20, PnLPercent = - 0.1, Duration = Some (0, 0, 7), Result = ''Loss'',
           ExitTime = Some 7, ExitReason = ''Stop Loss Triggered'', ExitPrice = 1998\<rparr>]"
    by simp
  with loop show ?thesis by (simp only: monitor_trade_and_exit_def)
qed

lemma wait_for_fill_none:
  "(\<forall>x\<in>set polls. fst x \<noteq> ''Filled'') \<Longrightarrow> wait_for_fill polls = None"
  by (induction polls rule: wait_for_fill.induct) simp_all

text \<open>
  Claim C9. When a policy exit fires and none of the (at most forty) polls of the close
  order shows \<open>Filled\<close>, \<open>close_position_at_market\<close> returns \<open>False\<close> and leaves the
  trade records as they were, and the monitor nevertheless ends in that pass with the
  records unchanged, whatever later wakes would have shown and whether or not the
  position is still in the broker's list.
\<close>

theorem failed_policy_close_ends_monitoring:
  assumes fires: "policy_exit strategy maxd w = Some reason"
    and nofill: "\<forall>x\<in>set (take 40 (w_close_polls w)). fst x \<noteq> ''Filled''"
  shows "close_position_at_market act q ep reason (w_close_polls w) (w_end_elapsed w) trs
           = (False, trs)
     \<and> monitor_step symbol act q ep sp strategy maxd lu trs w
           = Finished (PolicyClose reason False) trs
     \<and> monitor_loop symbol act q ep sp strategy maxd lu trs (w # ws)
           = Some (PolicyClose reason False, trs)
     \<and> monitor_trade_and_exit symbol act q ep sp strategy maxd trs (w # ws)
           = Some (PolicyClose reason False, trs)"
proof -
  have w: "wait_for_fill (take 40 (w_close_polls w)) = None"
    using nofill by (rule wait_for_fill_none)
  have c: "close_position_at_market act q ep reason (w_close_polls w) (w_end_elapsed w) trs
           = (False, trs)"
    by (simp add: close_position_at_market_def w)
  have s: "monitor_step symbol act q ep sp strategy maxd lu' trs w
           = Finished (PolicyClose reason False) trs" for lu'
    by (simp add: monitor_step_def fires c)
  show ?thesis using c s by (simp add: monitor_trade_and_exit_def)
qed

text \<open>
  An end-of-day close that never fills: the monitor ends with the position still listed
  and the record still at its entry-time defaults; the later wake, in which the position
  has gone, is never read.
\<close>

theorem failed_policy_close_ends_monitoring_witness:
  "monitor_trade_and_exit ''XAUUSD'' BUY 10 2000 1998 ''EOD'' 60 [new_trade BUY 2000 10 1998]
       [wake_at 15 50 [''XAUUSD''] (replicate 40 (''Submitted'', 0)),
        wake_at 15 51 [] [(''Filled'', 2001)]]
     = Some (PolicyClose ''EOD Market Close'' False, [new_trade BUY 2000 10 1998])
   \<and> ''XAUUSD'' \<in> set (w_positions (wake_at 15 50 [''XAUUSD''] (replicate 40 (''Submitted'', 0))))
   \<and> ExitPrice (new_trade BUY 2000 10 1998) = 0
   \<and> PnL (new_trade BUY 2000 10 1998) = 0
   \<and> ExitReason (new_trade BUY 2000 10 1998) = ''''"
proof -
  let ?w = "wake_at 15 50 [''XAUUSD''] (replicate 40 (''Submitted'', 0))"
  have h1: "policy_exit ''EOD'' 60 ?w = Some ''EOD Market Close''"
    by (simp add: eod_policy wake_at_def)
  have h2: "\<forall>x\<in>set (take 40 (w_close_polls ?w)). fst x \<noteq> ''Filled''"
    by (simp add: wake_at_def)
  from failed_policy_close_ends_monitoring [OF h1 h2]
  have "monitor_trade_and_exit ''XAUUSD'' BUY 10 2000 1998 ''EOD'' 60 [new_trade BUY 2000 10 1998]
       [?w, wake_at 15 51 [] [(''Filled'', 2001)]]
     = Some (PolicyClose ''EOD Market Close'' False, [new_trade BUY 2000 10 1998])"
    by blast
  then show ?thesis by (simp add: wake_at_def new_trade_def)
qed

end
